theory Spec2Isabelle
  imports Main
begin

section \<open>Revenue aggregation (backend/app/services/reservations.py)\<close>

text \<open>
  The module holds two coroutines, \<open>calculate_monthly_revenue\<close> and
  \<open>calculate_total_revenue\<close>. Each runs one SQL aggregation through a database pool
  inside \<open>try\<close> and answers from a literal table inside \<open>except Exception\<close>.

  The embedding makes the following explicit.
  \<^item> A Python exception is a value of \<open>py_exception\<close>; a call that may raise returns
    \<open>py_exception + 'a\<close> with \<open>Inl\<close> for the raise. Every constructor stands for a
    subclass of \<open>Exception\<close>, which is what \<open>except Exception\<close> catches;
    cancellation and interrupts, which are not, are outside the model.
  \<^item> \<open>print\<close> appends one line to a list that the function returns with its outcome.
  \<^item> The pool (\<open>app.core.database_pool\<close>, outside this module) is an argument: it says
    at which step of the \<open>try\<close> body the collaborator raises, or that it has no session
    factory, or which rows the \<open>reservations\<close> table holds when the query runs.
  \<^item> A coroutine that reaches the end of its body returns Python's \<open>None\<close>; the
    outcome of the monthly calculator is therefore a \<open>decimal option\<close>.
\<close>

subsection \<open>Python values\<close>

datatype py_exception =
    ValueError string
  | InvalidOperation string
  | KeyError string
  | Exception string

fun str_exception :: "py_exception \<Rightarrow> string" where
  "str_exception (ValueError m) = m"
| "str_exception (InvalidOperation m) = m"
| "str_exception (KeyError k) = [CHR 0x27] @ k @ [CHR 0x27]"
| "str_exception (Exception m) = m"

text \<open>
  \<open>decimal.Decimal\<close>, finite values only: the value is
  \<open>coefficient * 10 ^ exponent\<close>. \<open>Decimal('1243.875')\<close> is \<open>Decimal 1243875 (-3)\<close>,
  \<open>Decimal('0')\<close> is \<open>Decimal 0 0\<close> and \<open>Decimal('0.000')\<close> is \<open>Decimal 0 (-3)\<close>.
\<close>

datatype decimal = Decimal (coefficient: int) (exponent: int)

definition dec_nonneg :: "decimal \<Rightarrow> bool" where
  "dec_nonneg d = (0 \<le> coefficient d)"

text \<open>Exact addition: both operands are brought to the smaller exponent.\<close>

definition dec_add :: "decimal \<Rightarrow> decimal \<Rightarrow> decimal" where
  "dec_add a b =
     (let e = min (exponent a) (exponent b)
      in Decimal (coefficient a * 10 ^ nat (exponent a - e)
                  + coefficient b * 10 ^ nat (exponent b - e)) e)"

datatype py_value = PyStr string | PyInt int

type_synonym 'v dict = "string \<rightharpoonup> 'v"

text \<open>\<open>d.get(k, default)\<close> and \<open>d[k]\<close>.\<close>

definition dict_get :: "'v dict \<Rightarrow> string \<Rightarrow> 'v \<Rightarrow> 'v" where
  "dict_get d k dflt = (case d k of None \<Rightarrow> dflt | Some v \<Rightarrow> v)"

definition subscript :: "'v dict \<Rightarrow> string \<Rightarrow> py_exception + 'v" where
  "subscript d k = (case d k of None \<Rightarrow> Inl (KeyError k) | Some v \<Rightarrow> Inr v)"

subsection \<open>Formatting\<close>

fun digits :: "nat \<Rightarrow> string" where
  "digits n =
     (if n < 10 then [''0123456789'' ! n]
      else digits (n div 10) @ [''0123456789'' ! (n mod 10)])"

declare digits.simps [simp del]

text \<open>\<open>str(n)\<close> of an \<open>int\<close>, and the format specification \<open>02d\<close>.\<close>

definition str_int :: "int \<Rightarrow> string" where
  "str_int n = (if n < 0 then ''-'' @ digits (nat (- n)) else digits (nat n))"

definition format_02d :: "int \<Rightarrow> string" where
  "format_02d n =
     (if n < 0 then ''-'' @ digits (nat (- n))
      else if n < 10 then ''0'' @ digits (nat n)
      else digits (nat n))"

text \<open>
  \<open>str(d)\<close> of a finite \<open>Decimal\<close>, after \<open>Decimal.__str__\<close>: plain notation when the
  exponent is at most zero and at most six zeros follow the point, scientific
  notation otherwise.
\<close>

definition str_decimal :: "decimal \<Rightarrow> string" where
  "str_decimal d =
     (let sign = (if coefficient d < 0 then ''-'' else '''');
          ds = digits (nat \<bar>coefficient d\<bar>);
          n = int (length ds);
          leftdigits = exponent d + n;
          dotplace = (if exponent d \<le> 0 \<and> - 6 < leftdigits then leftdigits else 1);
          intpart = (if dotplace \<le> 0 then ''0''
                     else if n \<le> dotplace then ds @ replicate (nat (dotplace - n)) (CHR ''0'')
                     else take (nat dotplace) ds);
          fracpart = (if dotplace \<le> 0 then ''.'' @ replicate (nat (- dotplace)) (CHR ''0'') @ ds
                      else if n \<le> dotplace then ''''
                      else ''.'' @ drop (nat dotplace) ds);
          exp = (if leftdigits = dotplace then ''''
                 else ''E'' @ (if leftdigits - dotplace < 0 then ''-'' else ''+'')
                      @ digits (nat \<bar>leftdigits - dotplace\<bar>))
      in sign @ intpart @ fracpart @ exp)"

subsection \<open>\<open>datetime\<close>\<close>

datatype datetime =
  Datetime (dt_year: int) (dt_month: int) (dt_day: int)
           (dt_hour: int) (dt_minute: int) (dt_second: int) (dt_microsecond: int)

definition is_leap :: "int \<Rightarrow> bool" where
  "is_leap y = (y mod 4 = 0 \<and> (y mod 100 \<noteq> 0 \<or> y mod 400 = 0))"

definition days_in_month :: "int \<Rightarrow> int \<Rightarrow> int" where
  "days_in_month y m =
     (if m = 2 then (if is_leap y then 29 else 28)
      else if m = 4 \<or> m = 6 \<or> m = 9 \<or> m = 11 then 30
      else 31)"

text \<open>
  The constructor call \<open>datetime(year, month, day)\<close>: the time of day is midnight, and
  a year outside \<open>MINYEAR..MAXYEAR\<close> (1..9999), a month outside 1..12 or a day the month
  does not have raises \<open>ValueError\<close>, checked in this order. The message texts are
  those of CPython 3.12; no statement below depends on them.
\<close>

definition datetime :: "int \<Rightarrow> int \<Rightarrow> int \<Rightarrow> py_exception + datetime" where
  "datetime y m d =
     (if y < 1 \<or> 9999 < y then Inl (ValueError (''year '' @ str_int y @ '' is out of range''))
      else if m < 1 \<or> 12 < m then Inl (ValueError ''month must be in 1..12'')
      else if d < 1 \<or> days_in_month y m < d then Inl (ValueError ''day is out of range for month'')
      else Inr (Datetime y m d 0 0 0 0))"

fun lex_less :: "int list \<Rightarrow> int list \<Rightarrow> bool" where
  "lex_less (x # xs) (y # ys) = (x < y \<or> (x = y \<and> lex_less xs ys))"
| "lex_less [] (y # ys) = True"
| "lex_less xs [] = False"

definition dt_fields :: "datetime \<Rightarrow> int list" where
  "dt_fields t = [dt_year t, dt_month t, dt_day t, dt_hour t, dt_minute t, dt_second t,
                  dt_microsecond t]"

text \<open>The comparisons \<open><\<close> and \<open>>=\<close> of two timestamps.\<close>

definition dt_less :: "datetime \<Rightarrow> datetime \<Rightarrow> bool" where
  "dt_less a b = lex_less (dt_fields a) (dt_fields b)"

definition dt_ge :: "datetime \<Rightarrow> datetime \<Rightarrow> bool" where
  "dt_ge a b = (\<not> dt_less a b)"

subsection \<open>The \<open>reservations\<close> table and the two queries\<close>

text \<open>
  A row of \<open>reservations\<close> with the four columns the queries read. \<open>total_amount\<close> is
  an exact numeric; \<open>None\<close> is SQL's \<open>NULL\<close>.
\<close>

record reservation =
  res_property_id :: string
  res_tenant_id :: string
  total_amount :: "decimal option"
  check_in_date :: datetime

text \<open>What the driver hands to Python for a result column.\<close>

datatype sql_value = SqlNull | SqlInteger int | SqlNumeric decimal

text \<open>\<open>SUM\<close> skips \<open>NULL\<close> and is \<open>NULL\<close> when it has added nothing.\<close>

fun sql_sum :: "decimal option list \<Rightarrow> decimal option" where
  "sql_sum [] = None"
| "sql_sum (None # xs) = sql_sum xs"
| "sql_sum (Some a # xs) =
     (case sql_sum xs of None \<Rightarrow> Some a | Some s \<Rightarrow> Some (dec_add a s))"

record monthly_row =
  total :: sql_value

record total_row =
  row_property_id :: string
  total_revenue :: sql_value
  reservation_count :: int

text \<open>
  \<^verbatim>\<open>WHERE property_id = :property_id AND tenant_id = :tenant_id
  AND check_in_date >= :start_date AND check_in_date < :end_date\<close>
\<close>

definition monthly_where ::
  "string \<Rightarrow> string \<Rightarrow> datetime \<Rightarrow> datetime \<Rightarrow> reservation \<Rightarrow> bool" where
  "monthly_where property_id tenant_id start_date end_date r =
     (res_property_id r = property_id \<and> res_tenant_id r = tenant_id
      \<and> dt_ge (check_in_date r) start_date \<and> dt_less (check_in_date r) end_date)"

text \<open>
  \<^verbatim>\<open>SELECT COALESCE(SUM(total_amount), 0) as total FROM reservations WHERE ...\<close>
  followed by \<open>fetchone()\<close>. An aggregate without \<open>GROUP BY\<close> has exactly one result row.
\<close>

definition monthly_query ::
  "string \<Rightarrow> string \<Rightarrow> datetime \<Rightarrow> datetime \<Rightarrow> reservation list \<Rightarrow> monthly_row option" where
  "monthly_query property_id tenant_id start_date end_date table =
     Some \<lparr>total =
       (case sql_sum (map total_amount
               (filter (monthly_where property_id tenant_id start_date end_date) table)) of
          None \<Rightarrow> SqlInteger 0
        | Some s \<Rightarrow> SqlNumeric s)\<rparr>"

text \<open>\<^verbatim>\<open>WHERE property_id = :property_id AND tenant_id = :tenant_id\<close>\<close>

definition total_where :: "string \<Rightarrow> string \<Rightarrow> reservation \<Rightarrow> bool" where
  "total_where property_id tenant_id r =
     (res_property_id r = property_id \<and> res_tenant_id r = tenant_id)"

text \<open>
  \<^verbatim>\<open>SELECT property_id, SUM(total_amount) as total_revenue, COUNT(*) as reservation_count
  FROM reservations WHERE ... GROUP BY property_id\<close>
  followed by \<open>fetchone()\<close>. The filter leaves one property, so there is one group
  when a row matches and no result row when none does.
\<close>

definition total_query :: "string \<Rightarrow> string \<Rightarrow> reservation list \<Rightarrow> total_row option" where
  "total_query property_id tenant_id table =
     (let rows = filter (total_where property_id tenant_id) table
      in if rows = [] then None
         else Some \<lparr>row_property_id = property_id,
                    total_revenue = (case sql_sum (map total_amount rows) of
                                       None \<Rightarrow> SqlNull | Some s \<Rightarrow> SqlNumeric s),
                    reservation_count = int (length rows)\<rparr>)"

text \<open>
  \<open>Decimal(str(v))\<close> for a column value \<open>v\<close>. A numeric arrives as a \<open>Decimal\<close>, whose
  \<open>str\<close> is read back to the same digits and exponent; an integer gives exponent 0;
  \<open>NULL\<close> arrives as \<open>None\<close>, and \<open>Decimal('None')\<close> raises \<open>InvalidOperation\<close>.
\<close>

fun Decimal_of_str :: "sql_value \<Rightarrow> py_exception + decimal" where
  "Decimal_of_str SqlNull = Inl (InvalidOperation ''[<class 'decimal.ConversionSyntax'>]'')"
| "Decimal_of_str (SqlInteger n) = Inr (Decimal n 0)"
| "Decimal_of_str (SqlNumeric d) = Inr d"

subsection \<open>The database pool\<close>

text \<open>
  How far the \<open>try\<close> body gets. \<open>InitializeRaises\<close>: an import, \<open>DatabasePool()\<close> or
  \<open>initialize()\<close> raises. \<open>NoSessionFactory\<close>: \<open>initialize()\<close> returns and
  \<open>session_factory\<close> is falsy. \<open>GetSessionRaises\<close>: entering \<open>get_session()\<close> raises.
  \<open>ExecuteRaises\<close>: \<open>execute\<close> or \<open>fetchone\<close> raises. \<open>Reservations table\<close>: the query
  runs on \<open>table\<close>.
\<close>

datatype DatabasePool =
    InitializeRaises py_exception
  | NoSessionFactory
  | GetSessionRaises py_exception
  | ExecuteRaises py_exception
  | Reservations "reservation list"

text \<open>The exception the collaborator raises, if it raises one.\<close>

fun pool_exception :: "DatabasePool \<Rightarrow> py_exception option" where
  "pool_exception (InitializeRaises e) = Some e"
| "pool_exception NoSessionFactory = None"
| "pool_exception (GetSessionRaises e) = Some e"
| "pool_exception (ExecuteRaises e) = Some e"
| "pool_exception (Reservations table) = None"

subsection \<open>\<open>calculate_monthly_revenue\<close>\<close>

text \<open>
  The first five lines of the body: \<open>start_date\<close>, then \<open>end_date\<close> by the test
  \<open>month < 12\<close>. A \<open>ValueError\<close> of either \<open>datetime\<close> call ends the computation.
\<close>

definition month_bounds :: "int \<Rightarrow> int \<Rightarrow> py_exception + datetime \<times> datetime" where
  "month_bounds year month =
     (case datetime year month 1 of
        Inl e \<Rightarrow> Inl e
      | Inr start_date \<Rightarrow>
          (case (if month < 12 then datetime year (month + 1) 1
                 else datetime (year + 1) 1 1) of
             Inl e \<Rightarrow> Inl e
           | Inr end_date \<Rightarrow> Inr (start_date, end_date)))"

text \<open>The literal \<open>monthly_mock\<close>: tenant, then property, then the amount.\<close>

definition monthly_mock :: "decimal dict dict" where
  "monthly_mock = map_of
     [(''tenant-a'', map_of [(''prop-001'', Decimal 333333 (- 3)),
                             (''prop-002'', Decimal 1243875 (- 3)),
                             (''prop-003'', Decimal 3050250 (- 3))]),
      (''tenant-b'', map_of [(''prop-001'', Decimal 0 (- 3)),
                             (''prop-004'', Decimal 444125 (- 3)),
                             (''prop-005'', Decimal 1085333 (- 3))])]"

text \<open>\<open>monthly_mock.get(tenant_id, {}).get(property_id, Decimal('0'))\<close>\<close>

definition monthly_fallback :: "string \<Rightarrow> string \<Rightarrow> decimal" where
  "monthly_fallback property_id tenant_id =
     dict_get (dict_get monthly_mock tenant_id Map.empty) property_id (Decimal 0 0)"

text \<open>
  The line printed by the handler:
  \<^verbatim>\<open>f"[calculate_monthly_revenue] DB error for {property_id}/{tenant_id} {year}-{month:02d}: {e}"\<close>
\<close>

definition monthly_diagnostic ::
  "string \<Rightarrow> string \<Rightarrow> int \<Rightarrow> int \<Rightarrow> py_exception \<Rightarrow> string" where
  "monthly_diagnostic property_id tenant_id month year e =
     ''[calculate_monthly_revenue] DB error for '' @ property_id @ ''/'' @ tenant_id @ '' ''
     @ str_int year @ ''-'' @ format_02d month @ '': '' @ str_exception e"

text \<open>
  The body of \<open>try\<close>. The \<open>if db_pool.session_factory:\<close> has no \<open>else\<close>: with a falsy
  factory the body ends without \<open>return\<close> and without raising, which is the outcome
  \<open>Inr None\<close>.
\<close>

definition monthly_try ::
  "string \<Rightarrow> string \<Rightarrow> datetime \<Rightarrow> datetime \<Rightarrow> DatabasePool
   \<Rightarrow> py_exception + decimal option" where
  "monthly_try property_id tenant_id start_date end_date db_pool =
     (case db_pool of
        InitializeRaises e \<Rightarrow> Inl e
      | NoSessionFactory \<Rightarrow> Inr None
      | GetSessionRaises e \<Rightarrow> Inl e
      | ExecuteRaises e \<Rightarrow> Inl e
      | Reservations table \<Rightarrow>
          (case monthly_query property_id tenant_id start_date end_date table of
             Some row \<Rightarrow>
               (case Decimal_of_str (total row) of
                  Inl e \<Rightarrow> Inl e
                | Inr d \<Rightarrow> Inr (Some d))
           | None \<Rightarrow> Inr (Some (Decimal 0 0))))"

text \<open>
  The whole function. The two dates are built before \<open>try\<close>, so a \<open>ValueError\<close>
  of \<open>datetime\<close> leaves the function; an exception of the \<open>try\<close> body is printed and
  answered from \<open>monthly_mock\<close>. The result is the outcome paired with the lines printed.
\<close>

definition calculate_monthly_revenue ::
  "string \<Rightarrow> string \<Rightarrow> int \<Rightarrow> int \<Rightarrow> DatabasePool
   \<Rightarrow> (py_exception + decimal option) \<times> string list" where
  "calculate_monthly_revenue property_id tenant_id month year db_pool =
     (case month_bounds year month of
        Inl e \<Rightarrow> (Inl e, [])
      | Inr (start_date, end_date) \<Rightarrow>
          (case monthly_try property_id tenant_id start_date end_date db_pool of
             Inr r \<Rightarrow> (Inr r, [])
           | Inl e \<Rightarrow>
               (Inr (Some (monthly_fallback property_id tenant_id)),
                [monthly_diagnostic property_id tenant_id month year e])))"

subsection \<open>\<open>calculate_total_revenue\<close>\<close>

text \<open>The dict both live branches and the handler return.\<close>

definition revenue_result :: "string \<Rightarrow> string \<Rightarrow> py_value \<Rightarrow> py_value \<Rightarrow> py_value dict" where
  "revenue_result property_id tenant_id tot cnt = map_of
     [(''property_id'', PyStr property_id),
      (''tenant_id'', PyStr tenant_id),
      (''total'', tot),
      (''currency'', PyStr ''USD''),
      (''count'', cnt)]"

text \<open>The literal \<open>mock_data\<close>: tenant, then property, then a dict of total and count.\<close>

definition mock_entry :: "string \<Rightarrow> int \<Rightarrow> py_value dict" where
  "mock_entry t c = map_of [(''total'', PyStr t), (''count'', PyInt c)]"

definition mock_data :: "py_value dict dict dict" where
  "mock_data = map_of
     [(''tenant-a'', map_of [(''prop-001'', mock_entry ''2250.000'' 4),
                             (''prop-002'', mock_entry ''4975.500'' 4),
                             (''prop-003'', mock_entry ''6100.500'' 2)]),
      (''tenant-b'', map_of [(''prop-001'', mock_entry ''0.000'' 0),
                             (''prop-004'', mock_entry ''1776.500'' 4),
                             (''prop-005'', mock_entry ''3256.000'' 3)])]"

text \<open>
  \<open>mock_data.get(tenant_id, {}).get(property_id, {'total': '0.000', 'count': 0})\<close>
\<close>

definition mock_property_data :: "string \<Rightarrow> string \<Rightarrow> py_value dict" where
  "mock_property_data property_id tenant_id =
     dict_get (dict_get mock_data tenant_id Map.empty) property_id (mock_entry ''0.000'' 0)"

text \<open>\<^verbatim>\<open>f"Database error for {property_id} (tenant: {tenant_id}): {e}"\<close>\<close>

definition total_diagnostic :: "string \<Rightarrow> string \<Rightarrow> py_exception \<Rightarrow> string" where
  "total_diagnostic property_id tenant_id e =
     ''Database error for '' @ property_id @ '' (tenant: '' @ tenant_id @ ''): ''
     @ str_exception e"

text \<open>
  The body of \<open>try\<close>. Here the \<open>if db_pool.session_factory:\<close> has an \<open>else\<close> that
  raises \<open>Exception("Database pool not available")\<close>.
\<close>

definition total_try ::
  "string \<Rightarrow> string \<Rightarrow> DatabasePool \<Rightarrow> py_exception + py_value dict" where
  "total_try property_id tenant_id db_pool =
     (case db_pool of
        InitializeRaises e \<Rightarrow> Inl e
      | NoSessionFactory \<Rightarrow> Inl (Exception ''Database pool not available'')
      | GetSessionRaises e \<Rightarrow> Inl e
      | ExecuteRaises e \<Rightarrow> Inl e
      | Reservations table \<Rightarrow>
          (case total_query property_id tenant_id table of
             Some row \<Rightarrow>
               (case Decimal_of_str (total_revenue row) of
                  Inl e \<Rightarrow> Inl e
                | Inr total_revenue_dec \<Rightarrow>
                    Inr (revenue_result property_id tenant_id
                           (PyStr (str_decimal total_revenue_dec))
                           (PyInt (reservation_count row))))
           | None \<Rightarrow>
               Inr (revenue_result property_id tenant_id (PyStr ''0.00'') (PyInt 0))))"

text \<open>
  The body of \<open>except Exception as e\<close>, after the \<open>print\<close>: the two subscripts
  \<open>mock_property_data['total']\<close> and \<open>mock_property_data['count']\<close> are evaluated in
  the order of the dict display, and a \<open>KeyError\<close> of either would leave the function.
\<close>

definition total_except :: "string \<Rightarrow> string \<Rightarrow> py_exception + py_value dict" where
  "total_except property_id tenant_id =
     (case subscript (mock_property_data property_id tenant_id) ''total'' of
        Inl e \<Rightarrow> Inl e
      | Inr tot \<Rightarrow>
          (case subscript (mock_property_data property_id tenant_id) ''count'' of
             Inl e \<Rightarrow> Inl e
           | Inr cnt \<Rightarrow> Inr (revenue_result property_id tenant_id tot cnt)))"

definition calculate_total_revenue ::
  "string \<Rightarrow> string \<Rightarrow> DatabasePool \<Rightarrow> (py_exception + py_value dict) \<times> string list" where
  "calculate_total_revenue property_id tenant_id db_pool =
     (case total_try property_id tenant_id db_pool of
        Inr r \<Rightarrow> (Inr r, [])
      | Inl e \<Rightarrow>
          (total_except property_id tenant_id, [total_diagnostic property_id tenant_id e]))"

subsection \<open>Predicates of the statements\<close>

text \<open>The outcome is a raised \<open>ValueError\<close>.\<close>

definition raises_ValueError :: "(py_exception + 'a) \<Rightarrow> bool" where
  "raises_ValueError r = (case r of Inl (ValueError m) \<Rightarrow> True | _ \<Rightarrow> False)"

text \<open>
  The live tier is unavailable: the collaborator raises or has no session factory,
  so no query result reaches the function.
\<close>

fun unavailable :: "DatabasePool \<Rightarrow> bool" where
  "unavailable (Reservations table) = False"
| "unavailable db_pool = True"

text \<open>No reservation of the table has a negative amount.\<close>

definition amount_nonneg :: "reservation \<Rightarrow> bool" where
  "amount_nonneg r = (case total_amount r of None \<Rightarrow> True | Some a \<Rightarrow> dec_nonneg a)"

fun amounts_nonneg :: "DatabasePool \<Rightarrow> bool" where
  "amounts_nonneg (Reservations table) = list_all amount_nonneg table"
| "amounts_nonneg db_pool = True"

text \<open>The outcome is a returned \<open>Decimal\<close>: not a raise and not \<open>None\<close>.\<close>

definition returns_decimal :: "(py_exception + decimal option) \<Rightarrow> bool" where
  "returns_decimal r = (case r of Inr (Some d) \<Rightarrow> True | _ \<Rightarrow> False)"

definition returns_nonneg_decimal :: "(py_exception + decimal option) \<Rightarrow> bool" where
  "returns_nonneg_decimal r = (case r of Inr (Some d) \<Rightarrow> dec_nonneg d | _ \<Rightarrow> False)"

text \<open>
  The outcome is a returned dict in which each of the five keys of a Revenue Result
  has a value of its type.
\<close>

definition complete_revenue_result :: "py_value dict \<Rightarrow> bool" where
  "complete_revenue_result r =
     ((case r ''property_id'' of Some (PyStr s) \<Rightarrow> True | _ \<Rightarrow> False)
      \<and> (case r ''tenant_id'' of Some (PyStr s) \<Rightarrow> True | _ \<Rightarrow> False)
      \<and> (case r ''total'' of Some (PyStr s) \<Rightarrow> True | _ \<Rightarrow> False)
      \<and> r ''currency'' = Some (PyStr ''USD'')
      \<and> (case r ''count'' of Some (PyInt n) \<Rightarrow> True | _ \<Rightarrow> False))"

definition returns_complete_result :: "(py_exception + py_value dict) \<Rightarrow> bool" where
  "returns_complete_result r = (case r of Inr d \<Rightarrow> complete_revenue_result d | Inl e \<Rightarrow> False)"

section \<open>Properties\<close>

subsection \<open>Dates\<close>

lemma datetime_first:
  "1 \<le> y \<Longrightarrow> y \<le> 9999 \<Longrightarrow> 1 \<le> m \<Longrightarrow> m \<le> 12 \<Longrightarrow> datetime y m 1 = Inr (Datetime y m 1 0 0 0 0)"
  by (simp add: datetime_def days_in_month_def)

lemma datetime_bad_month:
  "m < 1 \<or> 12 < m \<Longrightarrow> \<exists>msg. datetime y m d = Inl (ValueError msg)"
  by (auto simp: datetime_def)

lemma month_bounds_valid:
  assumes "1 \<le> month" "month \<le> 12" "1 \<le> year" "year \<le> 9999" "month < 12 \<or> year < 9999"
  shows "month_bounds year month =
           Inr (Datetime year month 1 0 0 0 0,
                if month < 12 then Datetime year (month + 1) 1 0 0 0 0
                else Datetime (year + 1) 1 1 0 0 0 0)"
  using assms by (auto simp: month_bounds_def datetime_first)

lemma month_bounds_bad_month:
  assumes "month < 1 \<or> 12 < month"
  shows "\<exists>msg. month_bounds year month = Inl (ValueError msg)"
proof -
  obtain msg where "datetime year month 1 = Inl (ValueError msg)"
    using datetime_bad_month [OF assms] by blast
  then show ?thesis by (simp add: month_bounds_def)
qed

lemma month_bounds_shape:
  assumes "month_bounds year month = Inr (s, e)"
  shows "s = Datetime year month 1 0 0 0 0 \<and>
         e = (if month < 12 then Datetime year (month + 1) 1 0 0 0 0 else Datetime (year + 1) 1 1 0 0 0 0)"
  using assms
  by (auto simp: month_bounds_def datetime_def split: sum.splits if_splits)

lemma dt_less_irrefl: "\<not> dt_less t t"
  by (simp add: dt_less_def dt_fields_def)

lemma month_bounds_less:
  assumes "month_bounds year month = Inr (s, e)"
  shows "dt_less s e"
  using month_bounds_shape [OF assms]
  by (auto simp: dt_less_def dt_fields_def)

subsection \<open>The fallback tables and the result dict\<close>

lemma mock_property_data_entry:
  "\<exists>tot cnt. mock_property_data property_id tenant_id = mock_entry tot cnt \<and> 0 \<le> cnt"
proof -
  have entry: "\<And>t c. 0 \<le> c \<Longrightarrow> \<exists>tot cnt. mock_entry t c = mock_entry tot cnt \<and> 0 \<le> cnt"
    by blast
  show ?thesis
    by (simp add: mock_property_data_def mock_data_def dict_get_def entry)
qed

lemma subscript_entry:
  "subscript (mock_entry t c) ''total'' = Inr (PyStr t)"
  "subscript (mock_entry t c) ''count'' = Inr (PyInt c)"
  by (simp_all add: subscript_def mock_entry_def)

lemma total_except_result:
  "\<exists>tot cnt. mock_property_data property_id tenant_id = mock_entry tot cnt \<and> 0 \<le> cnt \<and>
     total_except property_id tenant_id = Inr (revenue_result property_id tenant_id (PyStr tot) (PyInt cnt))"
proof -
  obtain tot cnt where e: "mock_property_data property_id tenant_id = mock_entry tot cnt" "0 \<le> cnt"
    using mock_property_data_entry by blast
  then have "total_except property_id tenant_id = Inr (revenue_result property_id tenant_id (PyStr tot) (PyInt cnt))"
    by (simp add: total_except_def subscript_entry)
  with e show ?thesis by blast
qed

lemma dom_revenue_result:
  "dom (revenue_result property_id tenant_id tot cnt) = {''property_id'', ''tenant_id'', ''total'', ''currency'', ''count''}"
  by (auto simp: revenue_result_def dom_def split: if_splits)

lemma revenue_result_fields:
  "revenue_result property_id tenant_id tot cnt ''property_id'' = Some (PyStr property_id)"
  "revenue_result property_id tenant_id tot cnt ''tenant_id'' = Some (PyStr tenant_id)"
  "revenue_result property_id tenant_id tot cnt ''total'' = Some tot"
  "revenue_result property_id tenant_id tot cnt ''currency'' = Some (PyStr ''USD'')"
  "revenue_result property_id tenant_id tot cnt ''count'' = Some cnt"
  by (simp_all add: revenue_result_def)

lemma total_try_result:
  assumes "total_try property_id tenant_id db_pool = Inr r"
  shows "\<exists>tot cnt. r = revenue_result property_id tenant_id (PyStr tot) (PyInt cnt) \<and> 0 \<le> cnt"
proof -
  have shape: "\<And>t c. 0 \<le> c \<Longrightarrow>
      \<exists>tot cnt. revenue_result property_id tenant_id (PyStr t) (PyInt c)
                  = revenue_result property_id tenant_id (PyStr tot) (PyInt cnt) \<and> 0 \<le> cnt"
    by blast
  from assms show ?thesis
    by (auto simp: total_try_def total_query_def Let_def shape
             split: DatabasePool.splits option.splits sum.splits if_splits)
qed

lemma total_result_shape:
  "\<exists>tot cnt. fst (calculate_total_revenue property_id tenant_id db_pool)
      = Inr (revenue_result property_id tenant_id (PyStr tot) (PyInt cnt)) \<and> 0 \<le> cnt"
proof (cases "total_try property_id tenant_id db_pool")
  case (Inl e)
  then show ?thesis
    using total_except_result [of property_id tenant_id]
    by (auto simp: calculate_total_revenue_def)
next
  case (Inr r)
  then show ?thesis
    using total_try_result [OF Inr]
    by (auto simp: calculate_total_revenue_def)
qed

lemma monthly_fallback_nonneg: "dec_nonneg (monthly_fallback property_id tenant_id)"
  by (auto simp: monthly_fallback_def monthly_mock_def dict_get_def dec_nonneg_def)

subsection \<open>The two paths of the monthly calculator\<close>

lemma monthly_try_raises:
  "pool_exception db_pool = Some ex \<Longrightarrow> monthly_try property_id tenant_id s e db_pool = Inl ex"
  by (cases db_pool) (simp_all add: monthly_try_def)

lemma monthly_try_live:
  "monthly_try property_id tenant_id s e (Reservations table) =
     Inr (Some (case sql_sum (map total_amount (filter (monthly_where property_id tenant_id s e) table)) of
                  None \<Rightarrow> Decimal 0 0 | Some x \<Rightarrow> x))"
  by (simp add: monthly_try_def monthly_query_def split: option.splits)

lemma monthly_except_path:
  assumes "month_bounds year month = Inr (s, e)"
      and "pool_exception db_pool = Some ex"
  shows "calculate_monthly_revenue property_id tenant_id month year db_pool =
           (Inr (Some (monthly_fallback property_id tenant_id)),
            [monthly_diagnostic property_id tenant_id month year ex])"
  using assms by (simp add: calculate_monthly_revenue_def monthly_try_raises)

lemma monthly_live_path:
  assumes "month_bounds year month = Inr (s, e)"
  shows "calculate_monthly_revenue property_id tenant_id month year (Reservations table) =
           (Inr (Some (case sql_sum (map total_amount (filter (monthly_where property_id tenant_id s e) table)) of
                  None \<Rightarrow> Decimal 0 0 | Some x \<Rightarrow> x)), [])"
  using assms by (simp add: calculate_monthly_revenue_def monthly_try_live)

lemma dec_add_nonneg: "dec_nonneg a \<Longrightarrow> dec_nonneg b \<Longrightarrow> dec_nonneg (dec_add a b)"
  by (simp add: dec_nonneg_def dec_add_def Let_def)

lemma sql_sum_nonneg:
  "list_all (\<lambda>x. case x of None \<Rightarrow> True | Some a \<Rightarrow> dec_nonneg a) xs \<Longrightarrow>
   sql_sum xs = Some s \<Longrightarrow> dec_nonneg s"
  by (induction xs arbitrary: s rule: sql_sum.induct)
     (auto simp: dec_add_nonneg split: option.splits)

lemma total_try_unavailable:
  "unavailable db_pool \<Longrightarrow> \<exists>e. total_try property_id tenant_id db_pool = Inl e"
  by (cases db_pool) (simp_all add: total_try_def)

subsection \<open>The handler of the total aggregator\<close>

lemma total_except_path:
  assumes "unavailable db_pool"
  shows "fst (calculate_total_revenue property_id tenant_id db_pool) = total_except property_id tenant_id"
  using total_try_unavailable [OF assms, of property_id tenant_id]
  by (auto simp: calculate_total_revenue_def)

lemma total_except_entry:
  "mock_property_data property_id tenant_id = mock_entry tot cnt \<Longrightarrow>
   total_except property_id tenant_id = Inr (revenue_result property_id tenant_id (PyStr tot) (PyInt cnt))"
  by (simp add: total_except_def subscript_entry)

lemma mock_entry_inject: "mock_entry t c = mock_entry t' c' \<Longrightarrow> t = t' \<and> c = c'"
proof -
  assume e: "mock_entry t c = mock_entry t' c'"
  from e have "mock_entry t c ''total'' = mock_entry t' c' ''total''" by simp
  moreover from e have "mock_entry t c ''count'' = mock_entry t' c' ''count''" by simp
  ultimately show ?thesis by (simp add: mock_entry_def)
qed

lemma revenue_result_inject:
  "revenue_result p t tot cnt = revenue_result p' t' tot' cnt' \<Longrightarrow> tot = tot' \<and> cnt = cnt'"
proof -
  assume e: "revenue_result p t tot cnt = revenue_result p' t' tot' cnt'"
  from e have "revenue_result p t tot cnt ''total'' = revenue_result p' t' tot' cnt' ''total''"
    by simp
  moreover from e have "revenue_result p t tot cnt ''count'' = revenue_result p' t' tot' cnt' ''count''"
    by simp
  ultimately show ?thesis by (simp add: revenue_result_fields)
qed

lemma complete_revenue_resultI:
  "complete_revenue_result (revenue_result property_id tenant_id (PyStr tot) (PyInt cnt))"
  by (simp add: complete_revenue_result_def revenue_result_fields)

subsection \<open>Sums of amounts that are not negative\<close>

lemma monthly_live_nonneg:
  assumes "list_all amount_nonneg table"
  shows "dec_nonneg (case sql_sum (map total_amount (filter P table)) of
                       None \<Rightarrow> Decimal 0 0 | Some x \<Rightarrow> x)"
proof (cases "sql_sum (map total_amount (filter P table))")
  case None
  then show ?thesis by (simp add: dec_nonneg_def)
next
  case (Some s)
  have "list_all (\<lambda>x. case x of None \<Rightarrow> True | Some a \<Rightarrow> dec_nonneg a)
          (map total_amount (filter P table))"
    using assms by (induction table) (auto simp: amount_nonneg_def)
  then have "dec_nonneg s" using Some by (rule sql_sum_nonneg)
  with Some show ?thesis by simp
qed

section \<open>The claims\<close>

subsection \<open>Months outside 1..12\<close>

text \<open>
  C9. For every month outside 1..12 (13 and 0 among them), every year and every state
  of the pool, \<open>calculate_monthly_revenue\<close> raises \<open>ValueError\<close> to its caller and
  prints nothing: \<open>datetime(year, month, 1)\<close> is evaluated before \<open>try\<close>, out of
  reach of the handler. The guarantee of no raise therefore needs the month to be in
  1..12 as a hypothesis.
\<close>

theorem monthly_month_outside_raises:
  assumes "month < 1 \<or> 12 < month"
  shows "raises_ValueError (fst (calculate_monthly_revenue property_id tenant_id month year db_pool))
         \<and> snd (calculate_monthly_revenue property_id tenant_id month year db_pool) = []"
proof -
  obtain msg where "month_bounds year month = Inl (ValueError msg)"
    using month_bounds_bad_month [OF assms] by blast
  then show ?thesis
    by (simp add: calculate_monthly_revenue_def raises_ValueError_def)
qed

theorem monthly_month_outside_raises_witness:
  "((13::int) < 1 \<or> (12::int) < 13)
   \<and> raises_ValueError (fst (calculate_monthly_revenue ''prop-001'' ''tenant-a'' 13 2024
        (InitializeRaises (Exception ''pool down''))))
   \<and> ((0::int) < 1 \<or> (12::int) < 0)
   \<and> raises_ValueError (fst (calculate_monthly_revenue ''prop-001'' ''tenant-a'' 0 2024
        (Reservations [])))"
  using monthly_month_outside_raises [of 13 "''prop-001''" "''tenant-a''" 2024
          "InitializeRaises (Exception ''pool down'')"]
        monthly_month_outside_raises [of 0 "''prop-001''" "''tenant-a''" 2024 "Reservations []"]
  by simp

subsection \<open>The two boundary dates\<close>

text \<open>
  The statement of C6 for every year fails at the last representable month: for
  month 12 of year 9999 the end boundary \<open>datetime(10000, 1, 1)\<close> does not exist, and
  the function raises \<open>ValueError\<close> instead of computing it.
\<close>

theorem month_bounds_rollover_counterexample:
  "datetime 9999 12 1 = Inr (Datetime 9999 12 1 0 0 0 0)
   \<and> raises_ValueError (datetime (9999 + 1) 1 1)
   \<and> raises_ValueError (month_bounds 9999 12)
   \<and> raises_ValueError
        (fst (calculate_monthly_revenue ''prop-001'' ''tenant-a'' 12 9999 (Reservations [])))"
  by (simp add: calculate_monthly_revenue_def month_bounds_def datetime_def days_in_month_def
        raises_ValueError_def)

text \<open>
  C6, amended. For every month in 1..12 and every year in 1..9999, month 12 of year
  9999 excepted, \<open>calculate_monthly_revenue\<close> computes \<open>start_date\<close> as the first
  day of (year, month) and \<open>end_date\<close> as the first day of (year, month + 1), rolling
  over to (year + 1, 1, 1) for month 12; these two dates are the ones its query runs
  with.
\<close>

theorem month_bounds_first_days:
  assumes "1 \<le> month" and "month \<le> 12" and "1 \<le> year" and "year \<le> 9999"
      and "month < 12 \<or> year < 9999"
  shows "month_bounds year month =
           Inr (Datetime year month 1 0 0 0 0,
                if month < 12 then Datetime year (month + 1) 1 0 0 0 0
                else Datetime (year + 1) 1 1 0 0 0 0)
         \<and> calculate_monthly_revenue property_id tenant_id month year db_pool =
             (case monthly_try property_id tenant_id (Datetime year month 1 0 0 0 0)
                     (if month = 12 then Datetime (year + 1) 1 1 0 0 0 0
                      else Datetime year (month + 1) 1 0 0 0 0) db_pool of
                Inr r \<Rightarrow> (Inr r, [])
              | Inl e \<Rightarrow> (Inr (Some (monthly_fallback property_id tenant_id)),
                          [monthly_diagnostic property_id tenant_id month year e]))"
proof -
  have b: "month_bounds year month =
           Inr (Datetime year month 1 0 0 0 0,
                if month < 12 then Datetime year (month + 1) 1 0 0 0 0
                else Datetime (year + 1) 1 1 0 0 0 0)"
    by (rule month_bounds_valid [OF assms])
  have "(month < 12) = (month \<noteq> 12)" using assms(2) by arith
  with b show ?thesis
    by (simp add: calculate_monthly_revenue_def)
qed

theorem month_bounds_first_days_witness:
  "month_bounds 2024 12 = Inr (Datetime 2024 12 1 0 0 0 0, Datetime 2025 1 1 0 0 0 0)
   \<and> month_bounds 2024 2 = Inr (Datetime 2024 2 1 0 0 0 0, Datetime 2024 3 1 0 0 0 0)"
  using month_bounds_first_days [of 12 2024] month_bounds_first_days [of 2 2024]
  by simp

subsection \<open>The monthly fallback ignores the date\<close>

text \<open>
  The statement of C4 for every year fails for a year \<open>datetime\<close> does not have: with
  the live tier failing, year 0 gives a \<open>ValueError\<close> and not \<open>Decimal("1243.875")\<close>.
\<close>

theorem monthly_fallback_prop_002_counterexample:
  "pool_exception (ExecuteRaises (Exception ''connection refused'')) \<noteq> None
   \<and> raises_ValueError
        (fst (calculate_monthly_revenue ''prop-002'' ''tenant-a'' 6 0
               (ExecuteRaises (Exception ''connection refused''))))
   \<and> fst (calculate_monthly_revenue ''prop-002'' ''tenant-a'' 6 0
            (ExecuteRaises (Exception ''connection refused'')))
       \<noteq> Inr (Some (Decimal 1243875 (- 3)))"
  by (simp add: calculate_monthly_revenue_def month_bounds_def datetime_def
        raises_ValueError_def)

text \<open>
  C4, amended. When the live tier fails with an exception,
  \<open>calculate_monthly_revenue("prop-002", "tenant-a", month, year)\<close> returns
  \<open>Decimal("1243.875")\<close> for every month in 1..12 and every year in 1..9999, month 12
  of year 9999 excepted: the fallback value does not depend on the month or the year.
\<close>

theorem monthly_fallback_prop_002:
  assumes "pool_exception db_pool = Some ex"
      and "1 \<le> month" and "month \<le> 12" and "1 \<le> year" and "year \<le> 9999"
      and "month < 12 \<or> year < 9999"
  shows "fst (calculate_monthly_revenue ''prop-002'' ''tenant-a'' month year db_pool)
           = Inr (Some (Decimal 1243875 (- 3)))"
proof -
  have "monthly_fallback ''prop-002'' ''tenant-a'' = Decimal 1243875 (- 3)"
    by (simp add: monthly_fallback_def monthly_mock_def dict_get_def)
  then show ?thesis
    using monthly_except_path [OF month_bounds_valid [OF assms(2-6)] assms(1)]
    by simp
qed

theorem monthly_fallback_prop_002_witness:
  "pool_exception (GetSessionRaises (Exception ''no connection'')) = Some (Exception ''no connection'')
   \<and> fst (calculate_monthly_revenue ''prop-002'' ''tenant-a'' 6 2024
            (GetSessionRaises (Exception ''no connection''))) = Inr (Some (Decimal 1243875 (- 3)))
   \<and> fst (calculate_monthly_revenue ''prop-002'' ''tenant-a'' 12 1999
            (GetSessionRaises (Exception ''no connection''))) = Inr (Some (Decimal 1243875 (- 3)))"
  using monthly_fallback_prop_002 [of "GetSessionRaises (Exception ''no connection'')"
          "Exception ''no connection''" 6 2024]
        monthly_fallback_prop_002 [of "GetSessionRaises (Exception ''no connection'')"
          "Exception ''no connection''" 12 1999]
  by simp

subsection \<open>A pool without session factory in the monthly calculator\<close>

text \<open>
  C2 says that every unavailability of the collaborator is caught, reported and
  answered from the fallback table. In \<open>calculate_monthly_revenue\<close> a pool whose
  \<open>session_factory\<close> is falsy raises nothing: the \<open>if\<close> has no \<open>else\<close>, the handler
  is not entered, nothing is printed, and the function returns \<open>None\<close> where the table
  holds \<open>Decimal("1243.875")\<close>. \<open>calculate_total_revenue\<close> raises in that case and
  reports it.
\<close>

theorem monthly_no_session_factory_returns_None:
  "calculate_monthly_revenue ''prop-002'' ''tenant-a'' 6 2024 NoSessionFactory = (Inr None, [])
   \<and> monthly_fallback ''prop-002'' ''tenant-a'' = Decimal 1243875 (- 3)
   \<and> snd (calculate_total_revenue ''prop-002'' ''tenant-a'' NoSessionFactory)
       = [''Database error for prop-002 (tenant: tenant-a): Database pool not available'']"
  by (simp add: calculate_monthly_revenue_def month_bounds_def datetime_def days_in_month_def
        monthly_try_def calculate_total_revenue_def total_try_def total_diagnostic_def
        monthly_fallback_def monthly_mock_def dict_get_def)


subsection \<open>Well-formed results on every path\<close>

text \<open>
  The statement of C1 for every input with a month in 1..12 fails in two ways that the
  code has by construction: a year \<open>datetime\<close> does not have raises \<open>ValueError\<close>
  before \<open>try\<close>, and the live sum of a table with a negative amount is negative.
\<close>

theorem revenue_well_formed_counterexample:
  "raises_ValueError
     (fst (calculate_monthly_revenue ''prop-001'' ''tenant-a'' 6 10000
            (ExecuteRaises (Exception ''timeout''))))
   \<and> \<not> returns_decimal
     (fst (calculate_monthly_revenue ''prop-001'' ''tenant-a'' 6 10000
            (ExecuteRaises (Exception ''timeout''))))
   \<and> fst (calculate_monthly_revenue ''prop-001'' ''tenant-a'' 6 2024
          (Reservations [\<lparr>res_property_id = ''prop-001'', res_tenant_id = ''tenant-a'',
                           total_amount = Some (Decimal (- 5000) (- 2)),
                           check_in_date = Datetime 2024 6 15 0 0 0 0\<rparr>]))
     = Inr (Some (Decimal (- 5000) (- 2)))
   \<and> \<not> dec_nonneg (Decimal (- 5000) (- 2))"
  by (simp add: calculate_monthly_revenue_def month_bounds_def datetime_def days_in_month_def
        raises_ValueError_def returns_decimal_def monthly_try_def monthly_query_def
        monthly_where_def dt_ge_def dt_less_def dt_fields_def dec_nonneg_def)

text \<open>
  C1, amended. For every month in 1..12, every year in 1..9999 (month 12 of year 9999
  excepted) and every pool that raises or has a session factory,
  \<open>calculate_monthly_revenue\<close> returns a \<open>Decimal\<close> and does not raise; the value
  is not negative when no reservation amount is negative, and always on the fallback
  path. \<open>calculate_total_revenue\<close> returns a complete Revenue Result dict and does
  not raise, whatever the pool does.
\<close>

theorem revenue_well_formed:
  assumes "1 \<le> month" and "month \<le> 12" and "1 \<le> year" and "year \<le> 9999"
      and "month < 12 \<or> year < 9999"
      and "db_pool \<noteq> NoSessionFactory"
  shows "returns_decimal (fst (calculate_monthly_revenue property_id tenant_id month year db_pool))
       \<and> (amounts_nonneg db_pool \<longrightarrow>
            returns_nonneg_decimal
              (fst (calculate_monthly_revenue property_id tenant_id month year db_pool)))
       \<and> returns_complete_result (fst (calculate_total_revenue property_id tenant_id any_pool))"
proof -
  note b = month_bounds_valid [OF assms(1-5)]
  have total: "returns_complete_result (fst (calculate_total_revenue property_id tenant_id any_pool))"
    using total_result_shape [of property_id tenant_id any_pool]
    by (auto simp: returns_complete_result_def complete_revenue_resultI)
  show ?thesis
  proof (cases "pool_exception db_pool")
    case (Some ex)
    show ?thesis
      using monthly_except_path [OF b Some, of property_id tenant_id] total
        monthly_fallback_nonneg [of property_id tenant_id]
      by (simp add: returns_decimal_def returns_nonneg_decimal_def)
  next
    case None
    then obtain table where t: "db_pool = Reservations table"
      using assms(6) by (cases db_pool) simp_all
    show ?thesis
      using monthly_live_path [OF b, of property_id tenant_id table] total
        monthly_live_nonneg [of table]
      by (simp add: t returns_decimal_def returns_nonneg_decimal_def)
  qed
qed

theorem revenue_well_formed_witness:
  "returns_nonneg_decimal (fst (calculate_monthly_revenue ''prop-003'' ''tenant-a'' 12 2024
       (InitializeRaises (Exception ''pool down''))))
   \<and> returns_nonneg_decimal (fst (calculate_monthly_revenue ''prop-003'' ''tenant-a'' 12 2024
       (Reservations [\<lparr>res_property_id = ''prop-003'', res_tenant_id = ''tenant-a'',
                        total_amount = Some (Decimal 305025 (- 2)),
                        check_in_date = Datetime 2024 12 24 0 0 0 0\<rparr>])))
   \<and> returns_complete_result (fst (calculate_total_revenue ''prop-003'' ''tenant-a'' NoSessionFactory))"
  using revenue_well_formed [of 12 2024 "InitializeRaises (Exception ''pool down'')"
          "''prop-003''" "''tenant-a''" NoSessionFactory]
        revenue_well_formed [of 12 2024
          "Reservations [\<lparr>res_property_id = ''prop-003'', res_tenant_id = ''tenant-a'',
                        total_amount = Some (Decimal 305025 (- 2)),
                        check_in_date = Datetime 2024 12 24 0 0 0 0\<rparr>]"
          "''prop-003''" "''tenant-a''" NoSessionFactory]
  by (simp add: amount_nonneg_def dec_nonneg_def)

subsection \<open>Fallback of the total aggregator for a shared property\<close>

text \<open>
  C3. With the live tier unavailable (the pool raises or has no session factory),
  \<open>calculate_total_revenue("prop-001", "tenant-a")\<close> returns total \<open>"2250.000"\<close>,
  count 4 and currency \<open>"USD"\<close>, and the same call for \<open>"tenant-b"\<close> returns total
  \<open>"0.000"\<close> and count 0: the table is read by tenant first, and the entries of the two
  tenants for the property they share are different.
\<close>

theorem total_fallback_prop_001_by_tenant:
  assumes "unavailable db_pool"
  shows "fst (calculate_total_revenue ''prop-001'' ''tenant-a'' db_pool)
           = Inr (revenue_result ''prop-001'' ''tenant-a'' (PyStr ''2250.000'') (PyInt 4))
       \<and> fst (calculate_total_revenue ''prop-001'' ''tenant-b'' db_pool)
           = Inr (revenue_result ''prop-001'' ''tenant-b'' (PyStr ''0.000'') (PyInt 0))
       \<and> revenue_result ''prop-001'' ''tenant-a'' (PyStr ''2250.000'') (PyInt 4) ''currency''
           = Some (PyStr ''USD'')
       \<and> mock_property_data ''prop-001'' ''tenant-a'' \<noteq> mock_property_data ''prop-001'' ''tenant-b''"
proof -
  have a: "mock_property_data ''prop-001'' ''tenant-a'' = mock_entry ''2250.000'' 4"
    by (simp add: mock_property_data_def mock_data_def dict_get_def)
  have b: "mock_property_data ''prop-001'' ''tenant-b'' = mock_entry ''0.000'' 0"
    by (simp add: mock_property_data_def mock_data_def dict_get_def)
  have "mock_entry ''2250.000'' 4 \<noteq> mock_entry ''0.000'' 0"
    using mock_entry_inject [of "''2250.000''" 4 "''0.000''" 0] by auto
  then show ?thesis
    using total_except_path [OF assms] total_except_entry [OF a] total_except_entry [OF b]
    by (simp add: a b revenue_result_fields)
qed

theorem total_fallback_prop_001_by_tenant_witness:
  "unavailable NoSessionFactory
   \<and> fst (calculate_total_revenue ''prop-001'' ''tenant-a'' NoSessionFactory)
       = Inr (revenue_result ''prop-001'' ''tenant-a'' (PyStr ''2250.000'') (PyInt 4))
   \<and> fst (calculate_total_revenue ''prop-001'' ''tenant-b'' NoSessionFactory)
       = Inr (revenue_result ''prop-001'' ''tenant-b'' (PyStr ''0.000'') (PyInt 0))"
  using total_fallback_prop_001_by_tenant [of NoSessionFactory]
  by simp

subsection \<open>The half-open interval of the monthly query\<close>

text \<open>
  C5. The live monthly query keeps the check-in dates of the interval from the first
  day of the queried month (included) to the first day of the next month (excluded):
  a reservation of the tenant and property whose check-in is the first day of the
  queried month passes the filter and its amount is added to the sum of the other
  rows; one whose check-in is the first day of the next month fails the filter and
  leaves the result as it is without that row.
\<close>

theorem monthly_query_half_open:
  assumes "month_bounds year month = Inr (start_date, end_date)"
      and "res_property_id r = property_id" and "res_tenant_id r = tenant_id"
      and "total_amount r = Some a"
  shows "(check_in_date r = start_date \<longrightarrow>
            monthly_where property_id tenant_id start_date end_date r
            \<and> fst (calculate_monthly_revenue property_id tenant_id month year (Reservations (r # table)))
                = Inr (Some (case sql_sum (map total_amount
                                     (filter (monthly_where property_id tenant_id start_date end_date) table)) of
                               None \<Rightarrow> a | Some s \<Rightarrow> dec_add a s)))
       \<and> (check_in_date r = end_date \<longrightarrow>
            \<not> monthly_where property_id tenant_id start_date end_date r
            \<and> calculate_monthly_revenue property_id tenant_id month year (Reservations (r # table))
                = calculate_monthly_revenue property_id tenant_id month year (Reservations table))"
proof -
  note less = month_bounds_less [OF assms(1)]
  have incl: "monthly_where property_id tenant_id start_date end_date r"
    if "check_in_date r = start_date"
    using that less assms(2,3) by (simp add: monthly_where_def dt_ge_def dt_less_irrefl)
  have excl: "\<not> monthly_where property_id tenant_id start_date end_date r"
    if "check_in_date r = end_date"
    using that by (simp add: monthly_where_def dt_less_irrefl)
  show ?thesis
    using incl excl assms(4)
    by (auto simp: monthly_live_path [OF assms(1)] split: option.splits)
qed

theorem monthly_query_half_open_witness:
  "month_bounds 2024 6 = Inr (Datetime 2024 6 1 0 0 0 0, Datetime 2024 7 1 0 0 0 0)
   \<and> fst (calculate_monthly_revenue ''prop-001'' ''tenant-a'' 6 2024
        (Reservations [\<lparr>res_property_id = ''prop-001'', res_tenant_id = ''tenant-a'',
                         total_amount = Some (Decimal 25000 (- 2)),
                         check_in_date = Datetime 2024 6 1 0 0 0 0\<rparr>]))
       = Inr (Some (Decimal 25000 (- 2)))
   \<and> fst (calculate_monthly_revenue ''prop-001'' ''tenant-a'' 6 2024
        (Reservations [\<lparr>res_property_id = ''prop-001'', res_tenant_id = ''tenant-a'',
                         total_amount = Some (Decimal 25000 (- 2)),
                         check_in_date = Datetime 2024 7 1 0 0 0 0\<rparr>]))
       = Inr (Some (Decimal 0 0))"
  using monthly_query_half_open [of 2024 6 "Datetime 2024 6 1 0 0 0 0" "Datetime 2024 7 1 0 0 0 0"
          "\<lparr>res_property_id = ''prop-001'', res_tenant_id = ''tenant-a'',
            total_amount = Some (Decimal 25000 (- 2)),
            check_in_date = Datetime 2024 6 1 0 0 0 0\<rparr>" "''prop-001''" "''tenant-a''"
          "Decimal 25000 (- 2)" "[]"]
        monthly_query_half_open [of 2024 6 "Datetime 2024 6 1 0 0 0 0" "Datetime 2024 7 1 0 0 0 0"
          "\<lparr>res_property_id = ''prop-001'', res_tenant_id = ''tenant-a'',
            total_amount = Some (Decimal 25000 (- 2)),
            check_in_date = Datetime 2024 7 1 0 0 0 0\<rparr>" "''prop-001''" "''tenant-a''"
          "Decimal 25000 (- 2)" "[]"]
  by (simp add: month_bounds_def datetime_def days_in_month_def calculate_monthly_revenue_def
        monthly_try_def monthly_query_def)

subsection \<open>A live zero and the default of the fallback\<close>

text \<open>
  C7. A live total query that runs and finds no row gives the Revenue Result with
  total \<open>"0.00"\<close> and count 0, printing nothing. An empty table reaches this outcome.
  It differs from the result of the fallback path for a tenant or property the
  fallback table does not have, whose total is \<open>"0.000"\<close> with count 0.
\<close>

theorem total_live_empty_distinct_from_fallback_default:
  "(total_query property_id tenant_id table = None \<longrightarrow>
      calculate_total_revenue property_id tenant_id (Reservations table)
        = (Inr (revenue_result property_id tenant_id (PyStr ''0.00'') (PyInt 0)), []))
   \<and> total_query property_id tenant_id [] = None
   \<and> (unavailable db_pool \<and> dict_get mock_data tenant_id Map.empty property_id = None \<longrightarrow>
        fst (calculate_total_revenue property_id tenant_id db_pool)
          = Inr (revenue_result property_id tenant_id (PyStr ''0.000'') (PyInt 0)))
   \<and> revenue_result property_id tenant_id (PyStr ''0.00'') (PyInt 0)
       \<noteq> revenue_result property_id tenant_id (PyStr ''0.000'') (PyInt 0)"
proof -
  have live: "calculate_total_revenue property_id tenant_id (Reservations table)
        = (Inr (revenue_result property_id tenant_id (PyStr ''0.00'') (PyInt 0)), [])"
    if "total_query property_id tenant_id table = None"
    using that by (simp add: calculate_total_revenue_def total_try_def)
  have reach: "total_query property_id tenant_id [] = None"
    by (simp add: total_query_def)
  have dflt: "fst (calculate_total_revenue property_id tenant_id db_pool)
          = Inr (revenue_result property_id tenant_id (PyStr ''0.000'') (PyInt 0))"
    if "unavailable db_pool" and "dict_get mock_data tenant_id Map.empty property_id = None"
  proof -
    have "mock_property_data property_id tenant_id = mock_entry ''0.000'' 0"
      using that(2) by (simp add: mock_property_data_def dict_get_def)
    then show ?thesis
      using total_except_path [OF that(1)] total_except_entry by simp
  qed
  have diff: "revenue_result property_id tenant_id (PyStr ''0.00'') (PyInt 0)
       \<noteq> revenue_result property_id tenant_id (PyStr ''0.000'') (PyInt 0)"
    using revenue_result_inject [of property_id tenant_id "PyStr ''0.00''" "PyInt 0"
            property_id tenant_id "PyStr ''0.000''" "PyInt 0"]
    by auto
  show ?thesis using live reach dflt diff by blast
qed

theorem total_live_empty_distinct_from_fallback_default_witness:
  "total_query ''prop-009'' ''tenant-c''
      [\<lparr>res_property_id = ''prop-001'', res_tenant_id = ''tenant-a'',
        total_amount = Some (Decimal 25000 (- 2)),
        check_in_date = Datetime 2024 6 1 0 0 0 0\<rparr>] = None
   \<and> calculate_total_revenue ''prop-009'' ''tenant-c''
      (Reservations [\<lparr>res_property_id = ''prop-001'', res_tenant_id = ''tenant-a'',
        total_amount = Some (Decimal 25000 (- 2)),
        check_in_date = Datetime 2024 6 1 0 0 0 0\<rparr>])
       = (Inr (revenue_result ''prop-009'' ''tenant-c'' (PyStr ''0.00'') (PyInt 0)), [])
   \<and> unavailable (GetSessionRaises (Exception ''refused''))
   \<and> dict_get mock_data ''tenant-c'' Map.empty ''prop-009'' = None
   \<and> fst (calculate_total_revenue ''prop-009'' ''tenant-c'' (GetSessionRaises (Exception ''refused'')))
       = Inr (revenue_result ''prop-009'' ''tenant-c'' (PyStr ''0.000'') (PyInt 0))"
  using total_live_empty_distinct_from_fallback_default [of "''prop-009''" "''tenant-c''"
          "[\<lparr>res_property_id = ''prop-001'', res_tenant_id = ''tenant-a'',
             total_amount = Some (Decimal 25000 (- 2)),
             check_in_date = Datetime 2024 6 1 0 0 0 0\<rparr>]"
          "GetSessionRaises (Exception ''refused'')"]
  by (simp add: total_query_def total_where_def dict_get_def mock_data_def)

subsection \<open>One handler for a missing factory and a failing query\<close>

text \<open>
  C8. In \<open>calculate_total_revenue\<close> a pool without session factory raises
  \<open>Exception("Database pool not available")\<close> inside \<open>try\<close>. Every exception of the
  \<open>try\<close> body, this one included, is handled in one place: the line is printed and
  the result is read from the fallback table, which always gives a result and never
  an exception. Every unavailable pool takes this path.
\<close>

theorem total_no_factory_same_handler:
  "total_try property_id tenant_id NoSessionFactory = Inl (Exception ''Database pool not available'')
   \<and> (total_try property_id tenant_id db_pool = Inl e \<longrightarrow>
        calculate_total_revenue property_id tenant_id db_pool
          = (total_except property_id tenant_id, [total_diagnostic property_id tenant_id e])
        \<and> (\<exists>tot cnt. mock_property_data property_id tenant_id = mock_entry tot cnt
              \<and> total_except property_id tenant_id
                  = Inr (revenue_result property_id tenant_id (PyStr tot) (PyInt cnt))))
   \<and> (unavailable db_pool \<longrightarrow> (\<exists>e. total_try property_id tenant_id db_pool = Inl e))"
proof -
  have 1: "total_try property_id tenant_id NoSessionFactory = Inl (Exception ''Database pool not available'')"
    by (simp add: total_try_def)
  have 2: "\<exists>tot cnt. mock_property_data property_id tenant_id = mock_entry tot cnt
              \<and> total_except property_id tenant_id
                  = Inr (revenue_result property_id tenant_id (PyStr tot) (PyInt cnt))"
    using total_except_result [of property_id tenant_id] by blast
  show ?thesis
    using 1 2 total_try_unavailable [of db_pool property_id tenant_id]
    by (auto simp: calculate_total_revenue_def)
qed

theorem total_no_factory_same_handler_witness:
  "calculate_total_revenue ''prop-004'' ''tenant-b'' NoSessionFactory
     = (Inr (revenue_result ''prop-004'' ''tenant-b'' (PyStr ''1776.500'') (PyInt 4)),
        [''Database error for prop-004 (tenant: tenant-b): Database pool not available''])
   \<and> calculate_total_revenue ''prop-004'' ''tenant-b'' (ExecuteRaises (Exception ''timeout''))
     = (Inr (revenue_result ''prop-004'' ''tenant-b'' (PyStr ''1776.500'') (PyInt 4)),
        [''Database error for prop-004 (tenant: tenant-b): timeout''])"
  using total_no_factory_same_handler [of "''prop-004''" "''tenant-b''" NoSessionFactory
          "Exception ''Database pool not available''"]
        total_no_factory_same_handler [of "''prop-004''" "''tenant-b''"
          "ExecuteRaises (Exception ''timeout'')" "Exception ''timeout''"]
  by (simp add: total_try_def total_diagnostic_def total_except_def subscript_def
        mock_property_data_def mock_data_def dict_get_def mock_entry_def)

subsection \<open>The keys of the returned dict\<close>

text \<open>
  C10. On every path of \<open>calculate_total_revenue\<close> (a live row, no live row, the
  fallback) the function returns a dict whose keys are exactly \<open>property_id\<close>,
  \<open>tenant_id\<close>, \<open>total\<close>, \<open>currency\<close> and \<open>count\<close>, where \<open>property_id\<close> and
  \<open>tenant_id\<close> are the arguments, \<open>currency\<close> is \<open>"USD"\<close>, \<open>total\<close> is a string and
  \<open>count\<close> is an integer that is not negative.
\<close>

theorem total_result_keys:
  "\<exists>r tot cnt. fst (calculate_total_revenue property_id tenant_id db_pool) = Inr r
     \<and> dom r = {''property_id'', ''tenant_id'', ''total'', ''currency'', ''count''}
     \<and> r ''property_id'' = Some (PyStr property_id)
     \<and> r ''tenant_id'' = Some (PyStr tenant_id)
     \<and> r ''currency'' = Some (PyStr ''USD'')
     \<and> r ''total'' = Some (PyStr tot)
     \<and> r ''count'' = Some (PyInt cnt) \<and> 0 \<le> cnt"
proof -
  obtain tot cnt where
    r: "fst (calculate_total_revenue property_id tenant_id db_pool)
          = Inr (revenue_result property_id tenant_id (PyStr tot) (PyInt cnt))"
    and c: "0 \<le> cnt"
    using total_result_shape [of property_id tenant_id db_pool] by blast
  show ?thesis
    using r c by (simp add: dom_revenue_result revenue_result_fields)
qed

theorem total_result_keys_witness:
  "\<exists>r tot cnt.
     fst (calculate_total_revenue ''prop-005'' ''tenant-b''
            (Reservations [\<lparr>res_property_id = ''prop-005'', res_tenant_id = ''tenant-b'',
                             total_amount = Some (Decimal 1085333 (- 3)),
                             check_in_date = Datetime 2024 3 9 15 0 0 0\<rparr>])) = Inr r
     \<and> dom r = {''property_id'', ''tenant_id'', ''total'', ''currency'', ''count''}
     \<and> r ''property_id'' = Some (PyStr ''prop-005'')
     \<and> r ''tenant_id'' = Some (PyStr ''tenant-b'')
     \<and> r ''currency'' = Some (PyStr ''USD'')
     \<and> r ''total'' = Some (PyStr tot)
     \<and> r ''count'' = Some (PyInt cnt) \<and> 0 \<le> cnt"
  using total_result_keys [of "''prop-005''" "''tenant-b''"
          "Reservations [\<lparr>res_property_id = ''prop-005'', res_tenant_id = ''tenant-b'',
                           total_amount = Some (Decimal 1085333 (- 3)),
                           check_in_date = Datetime 2024 3 9 15 0 0 0\<rparr>]"]
  by simp

end
